theory Spec2Isabelle
  imports Complex_Main "HOL-Library.Sublist"
begin

section \<open>PbEuSe.py: the gap model and the Bauer data sets\<close>

text \<open>
  The driver script \<^verbatim>\<open>PbEuSe.py\<close> defines two functions of its own: \<^verbatim>\<open>Eg_func\<close>, the
  empirical band gap as a function of composition and temperature, and
  \<^verbatim>\<open>GetExpData\<close>, which selects one of four tabulated sets of exchange parameters.

  Numbers. The script computes with double-precision floats. They are embedded as
  exact real numbers: a decimal literal of the script is the rational it denotes, and
  \<^verbatim>\<open>+\<close>, \<^verbatim>\<open>-\<close>, \<^verbatim>\<open>*\<close>, \<^verbatim>\<open>/\<close> are the field operations. Rounding to 53 bits and the
  finite range of a double are therefore not part of the model; every statement below
  is a statement about the arithmetic the script writes down, computed exactly.
\<close>

subsection \<open>Values\<close>

text \<open>
  \<^verbatim>\<open>np.sqrt\<close> is the one operation of the script with a restricted domain: on a
  negative argument it yields \<^verbatim>\<open>nan\<close> (and a warning). The result of an expression
  that contains it is either a number or \<^verbatim>\<open>nan\<close>, and \<^verbatim>\<open>nan\<close> is absorbing in the
  arithmetic that follows.
\<close>

datatype npfloat = Val real | NaN

definition np_sqrt :: "real \<Rightarrow> npfloat" where
  "np_sqrt v = (if v < 0 then NaN else Val (sqrt v))"

fun np_apply :: "(real \<Rightarrow> real) \<Rightarrow> npfloat \<Rightarrow> npfloat" where
  "np_apply f (Val v) = Val (f v)"
| "np_apply f NaN = NaN"

text \<open>The builtin \<^verbatim>\<open>pow(b, e)\<close> with a literal natural exponent.\<close>

definition py_pow :: "real \<Rightarrow> nat \<Rightarrow> real" where
  "py_pow b e = b ^ e"

subsection \<open>The gap model\<close>

text \<open>
  \<^verbatim>\<open>
  def Eg_func( x, T):
      return (72 - 710*x + 2440*pow(x,2) - 4750*pow(x,3) - 22.5
              + np.sqrt(506 + 0.1*pow(T - 4.2, 2) ) )/1000;
  \<close>
  The body is a single expression over the two parameters: it prints nothing, and reads
  and writes no variable of the module, so the function is embedded without a state.
\<close>

definition Eg_func :: "real \<Rightarrow> real \<Rightarrow> npfloat" where
  "Eg_func x T =
     np_apply (\<lambda>r. (72 - 710 * x + 2440 * py_pow x 2 - 4750 * py_pow x 3 - 22.5 + r) / 1000)
       (np_sqrt (506 + 0.1 * py_pow (T - 4.2) 2))"

text \<open>
  The formula of the documentation, as it is written there:
  \<^verbatim>\<open>Eg(x,T) = (72 - 710x + 2440x^2 - 4750x^3 - 22.5 + sqrt(506 + 0.1(T - 4.2)^2)) / 1000\<close>.
\<close>

definition Eg_documented :: "real \<Rightarrow> real \<Rightarrow> real" where
  "Eg_documented x T =
     (72 - 710 * x + 2440 * x\<^sup>2 - 4750 * x ^ 3 - 22.5 + sqrt (506 + 0.1 * (T - 4.2)\<^sup>2)) / 1000"

text \<open>
  A result lies within \<open>tol\<close> of a number \<open>c\<close>; \<^verbatim>\<open>nan\<close> is close to nothing.
\<close>

fun np_close :: "real \<Rightarrow> real \<Rightarrow> npfloat \<Rightarrow> bool" where
  "np_close tol c (Val v) = (\<bar>v - c\<bar> \<le> tol)"
| "np_close tol c NaN = False"

subsection \<open>The experimental data sets\<close>

text \<open>
  \<^verbatim>\<open>GetExpData\<close> prints two lines and either returns a tuple of six numbers or raises
  \<^verbatim>\<open>ValueError\<close>. What it prints is kept as a list of lines; a line is a list of
  pieces, where \<open>StrInt i\<close> and \<open>StrNum s\<close> stand for \<^verbatim>\<open>str(i)\<close> and \<^verbatim>\<open>str(s)\<close>.
\<close>

datatype piece = Lit string | StrInt int | StrNum real

type_synonym line = "piece list"

datatype error = ValueError string

type_synonym params = "real \<times> real \<times> real \<times> real \<times> real \<times> real"

text \<open>
  \<^verbatim>\<open>
  def GetExpData(data_i, scale_factor = 1):
      print("Bauer PbEuSe data set "+str(data_i)+" selected with scale factor "+str(scale_factor)+"." )
      if( data_i == 0):
          print("This data corresponds to x = 0.0142, T = 1.7 K.");
          A, a1, a2 = 0.032, 0.03, 0.03 - 0.032;
          B, b1, b2 = 0.0066, 0.0075, 0.0075 - 0.0066;
      elif( data_i == 1):
          print("This data corresponds to x = 0.024, T = 1.7 K.");
          A, a1, a2 = 0.0244, 0.02, 0.02 - 0.0244;
          B, b1, b2 = 0.006, 0.0025, 0.0025 - 0.006;
      elif ( data_i == 2):
          print("This data corresponds to x = 0.024, T = 6 K.");
          A, a1, a2 = 0.024, 0.018,  0.018 - 0.024;
          B, b1, b2 = 0.0078, 0.0009, 0.0009 - 0.0078
      elif ( data_i == 3):
          print("This data corresponds to x = 0.024, T = 12 K.");
          A, a1, a2 = 0.022, 0.0175,  0.0175 - 0.022;
          B, b1, b2 = 0.0097, 0.0022, 0.0022 - 0.0097;
      else:
          print("Error in GetExpData:")
          raise ValueError("Only 4 experimental datasets, data_i != 0, 1, 2, 3 unsupported.");
      return A*scale_factor, a1*scale_factor, a2*scale_factor, B*scale_factor, b1*scale_factor, b2*scale_factor;
  \<close>
  The chain of branches either binds the two triples and a line to print, or raises;
  the return statement after the chain is shared by the four branches that bind.
\<close>

definition GetExpData :: "int \<Rightarrow> real \<Rightarrow> line list \<times> (error + params)" where
  "GetExpData data_i scale_factor =
     (let banner = [Lit ''Bauer PbEuSe data set '', StrInt data_i,
                    Lit '' selected with scale factor '', StrNum scale_factor, Lit ''.''];
          branch =
            (if data_i = 0 then
               Inr (''This data corresponds to x = 0.0142, T = 1.7 K.'',
                    (0.032, 0.03, 0.03 - 0.032), (0.0066, 0.0075, 0.0075 - 0.0066))
             else if data_i = 1 then
               Inr (''This data corresponds to x = 0.024, T = 1.7 K.'',
                    (0.0244, 0.02, 0.02 - 0.0244), (0.006, 0.0025, 0.0025 - 0.006))
             else if data_i = 2 then
               Inr (''This data corresponds to x = 0.024, T = 6 K.'',
                    (0.024, 0.018, 0.018 - 0.024), (0.0078, 0.0009, 0.0009 - 0.0078))
             else if data_i = 3 then
               Inr (''This data corresponds to x = 0.024, T = 12 K.'',
                    (0.022, 0.0175, 0.0175 - 0.022), (0.0097, 0.0022, 0.0022 - 0.0097))
             else
               Inl (''Error in GetExpData:'',
                    ValueError ''Only 4 experimental datasets, data_i != 0, 1, 2, 3 unsupported.''))
      in case branch of
           Inl (printed, err) \<Rightarrow> ([banner, [Lit printed]], Inl err)
         | Inr (printed, (A, a1, a2), (B, b1, b2)) \<Rightarrow>
             ([banner, [Lit printed]],
              Inr (A * scale_factor, a1 * scale_factor, a2 * scale_factor,
                   B * scale_factor, b1 * scale_factor, b2 * scale_factor)))"

text \<open>The call \<^verbatim>\<open>GetExpData(data_i)\<close>, with the default \<^verbatim>\<open>scale_factor = 1\<close>.\<close>

definition GetExpData_default :: "int \<Rightarrow> line list \<times> (error + params)" where
  "GetExpData_default data_i = GetExpData data_i 1"

text \<open>
  The base values of the four data sets, row by row as the branches of \<^verbatim>\<open>GetExpData\<close>
  write them: the tabulated \<open>A\<close>, \<open>a1\<close>, \<open>B\<close>, \<open>b1\<close>, and the two differences.
  Row \<open>i\<close> of the table is \<open>base_table ! i\<close>.
\<close>

definition base_table :: "params list" where
  "base_table =
     [(0.032, 0.03, 0.03 - 0.032, 0.0066, 0.0075, 0.0075 - 0.0066),
      (0.0244, 0.02, 0.02 - 0.0244, 0.006, 0.0025, 0.0025 - 0.006),
      (0.024, 0.018, 0.018 - 0.024, 0.0078, 0.0009, 0.0009 - 0.0078),
      (0.022, 0.0175, 0.0175 - 0.022, 0.0097, 0.0022, 0.0022 - 0.0097)]"

fun scaled :: "real \<Rightarrow> params \<Rightarrow> params" where
  "scaled s (A, a1, a2, B, b1, b2) = (A * s, a1 * s, a2 * s, B * s, b1 * s, b2 * s)"

text \<open>Two tuples agree component by component up to \<open>tol\<close>.\<close>

fun params_close :: "real \<Rightarrow> params \<Rightarrow> params \<Rightarrow> bool" where
  "params_close tol (A, a1, a2, B, b1, b2) (A', a1', a2', B', b1', b2') =
     (\<bar>A - A'\<bar> \<le> tol \<and> \<bar>a1 - a1'\<bar> \<le> tol \<and> \<bar>a2 - a2'\<bar> \<le> tol \<and>
      \<bar>B - B'\<bar> \<le> tol \<and> \<bar>b1 - b1'\<bar> \<le> tol \<and> \<bar>b2 - b2'\<bar> \<le> tol)"

fun returns_close :: "real \<Rightarrow> error + params \<Rightarrow> params \<Rightarrow> bool" where
  "returns_close tol (Inr p) q = params_close tol p q"
| "returns_close tol (Inl e) q = False"

text \<open>The two derived components of a returned tuple are the differences of the others.\<close>

fun derived :: "params \<Rightarrow> bool" where
  "derived (A, a1, a2, B, b1, b2) = (a2 = a1 - A \<and> b2 = b1 - B)"

section \<open>Properties of \<^verbatim>\<open>GetExpData\<close>\<close>

lemma GetExpData_else:
  "data_i \<noteq> 0 \<Longrightarrow> data_i \<noteq> 1 \<Longrightarrow> data_i \<noteq> 2 \<Longrightarrow> data_i \<noteq> 3 \<Longrightarrow>
   GetExpData data_i s =
     ([[Lit ''Bauer PbEuSe data set '', StrInt data_i,
        Lit '' selected with scale factor '', StrNum s, Lit ''.''],
       [Lit ''Error in GetExpData:'']],
      Inl (ValueError ''Only 4 experimental datasets, data_i != 0, 1, 2, 3 unsupported.''))"
  by (simp add: GetExpData_def)

text \<open>
  C1. For every integer data set index outside \<open>{0, 1, 2, 3}\<close> and every scale factor,
  \<^verbatim>\<open>GetExpData\<close> raises \<^verbatim>\<open>ValueError\<close> with the message
  "Only 4 experimental datasets, data_i != 0, 1, 2, 3 unsupported.", which begins with
  "Only 4 experimental datasets"; it returns no tuple, so there is no default.
\<close>

theorem GetExpData_invalid_index_raises:
  assumes "data_i \<notin> {0, 1, 2, 3}"
  shows "\<exists>msg. snd (GetExpData data_i scale_factor) = Inl (ValueError msg) \<and>
           msg = ''Only 4 experimental datasets, data_i != 0, 1, 2, 3 unsupported.'' \<and>
           prefix ''Only 4 experimental datasets'' msg \<and>
           (\<forall>t. snd (GetExpData data_i scale_factor) \<noteq> Inr t)"
proof -
  from assms have ne: "data_i \<noteq> 0" "data_i \<noteq> 1" "data_i \<noteq> 2" "data_i \<noteq> 3"
    by auto
  have "prefix ''Only 4 experimental datasets''
          ''Only 4 experimental datasets, data_i != 0, 1, 2, 3 unsupported.''"
    by simp
  with GetExpData_else [OF ne, of scale_factor] show ?thesis
    by simp
qed

theorem GetExpData_invalid_index_raises_witness:
  "(4::int) \<notin> {0, 1, 2, 3} \<and> (- 1::int) \<notin> {0, 1, 2, 3} \<and>
   snd (GetExpData 4 1) =
     Inl (ValueError ''Only 4 experimental datasets, data_i != 0, 1, 2, 3 unsupported.'') \<and>
   snd (GetExpData (- 1) 10) =
     Inl (ValueError ''Only 4 experimental datasets, data_i != 0, 1, 2, 3 unsupported.'')"
  using GetExpData_invalid_index_raises [of 4 1] GetExpData_invalid_index_raises [of "- 1" 10]
  by simp

lemma GetExpData_valid:
  assumes "i \<in> {0, 1, 2, 3}"
  shows "snd (GetExpData i s) = Inr (scaled s (base_table ! nat i))"
proof -
  from assms consider "i = 0" | "i = 1" | "i = 2" | "i = 3"
    by auto
  then show ?thesis
    by cases (simp_all add: GetExpData_def base_table_def)
qed

text \<open>
  C3. \<^verbatim>\<open>GetExpData(0)\<close>, with the default scale factor, returns
  \<open>(0.032, 0.03, -0.002, 0.0066, 0.0075, 0.0009)\<close>; each component lies within \<open>tol\<close> of
  the literals \<open>(0.032, 0.03, -0.002, 0.0066, 0.0075, 0.0009000000000000001)\<close>, for every
  tolerance \<open>tol\<close> of at least \<open>10\<^sup>-\<^sup>1\<^sup>9\<close>.
\<close>

theorem GetExpData_0_default:
  assumes "1 / 10 ^ 19 \<le> tol"
  shows "snd (GetExpData_default 0) = Inr (0.032, 0.03, - 0.002, 0.0066, 0.0075, 0.0009) \<and>
         returns_close tol (snd (GetExpData_default 0))
           (0.032, 0.03, - 0.002, 0.0066, 0.0075, 0.0009000000000000001)"
  using assms by (simp add: GetExpData_default_def GetExpData_valid base_table_def)

theorem GetExpData_0_default_witness:
  "(1::real) / 10 ^ 19 \<le> 1 / 10 ^ 15 \<and>
   returns_close (1 / 10 ^ 15) (snd (GetExpData_default 0))
     (0.032, 0.03, - 0.002, 0.0066, 0.0075, 0.0009000000000000001)"
  using GetExpData_0_default [of "1 / 10 ^ 15"] by simp

text \<open>
  C4. For every valid data set index \<open>i\<close> in \<open>{0, 1, 2, 3}\<close> and every scale factor \<open>s\<close>,
  \<^verbatim>\<open>GetExpData(i, s)\<close> returns the six base values of row \<open>i\<close>, each multiplied by \<open>s\<close>.
  In particular \<^verbatim>\<open>GetExpData(1, scale_factor=10)\<close> returns ten times the base values of
  data set 1.
\<close>

theorem GetExpData_scales_base_values:
  assumes "i \<in> {0, 1, 2, 3}"
  shows "snd (GetExpData i s) = Inr (scaled s (base_table ! nat i))"
  using assms by (rule GetExpData_valid)

theorem GetExpData_scales_base_values_witness:
  "(1::int) \<in> {0, 1, 2, 3} \<and>
   base_table ! nat 1 = (0.0244, 0.02, - 0.0044, 0.006, 0.0025, - 0.0035) \<and>
   snd (GetExpData 1 10) = Inr (0.244, 0.2, - 0.044, 0.06, 0.025, - 0.035)"
  using GetExpData_scales_base_values [of 1 10] by (simp add: base_table_def)

text \<open>
  C5. For every valid data set index, the tuple \<open>(A, a1, a2, B, b1, b2)\<close> returned with
  scale factor 1 satisfies \<open>a2 = a1 - A\<close> and \<open>b2 = b1 - B\<close>.
\<close>

theorem GetExpData_derived_terms:
  assumes "i \<in> {0, 1, 2, 3}"
  shows "\<exists>p. snd (GetExpData i 1) = Inr p \<and> derived p"
proof -
  from assms consider "i = 0" | "i = 1" | "i = 2" | "i = 3"
    by auto
  then show ?thesis
    by cases (simp_all add: GetExpData_valid base_table_def)
qed

theorem GetExpData_derived_terms_witness:
  "(2::int) \<in> {0, 1, 2, 3} \<and>
   (\<exists>p. snd (GetExpData 2 1) = Inr p \<and> derived p) \<and>
   snd (GetExpData 2 1) = Inr (0.024, 0.018, - 0.006, 0.0078, 0.0009, - 0.0069)"
  using GetExpData_derived_terms [of 2] by (simp add: GetExpData_valid base_table_def)

text \<open>
  C6. For every valid data set index, \<^verbatim>\<open>GetExpData\<close> with scale factor 0 returns
  \<open>(0, 0, 0, 0, 0, 0)\<close>.
\<close>

theorem GetExpData_scale_zero:
  assumes "i \<in> {0, 1, 2, 3}"
  shows "snd (GetExpData i 0) = Inr (0, 0, 0, 0, 0, 0)"
proof -
  from assms consider "i = 0" | "i = 1" | "i = 2" | "i = 3"
    by auto
  then show ?thesis
    by cases (simp_all add: GetExpData_valid base_table_def)
qed

theorem GetExpData_scale_zero_witness:
  "(3::int) \<in> {0, 1, 2, 3} \<and> snd (GetExpData 3 0) = Inr (0, 0, 0, 0, 0, 0)"
  using GetExpData_scale_zero [of 3] by simp

section \<open>Properties of \<^verbatim>\<open>Eg_func\<close>\<close>

lemma np_sqrt_nonneg: "0 \<le> v \<Longrightarrow> np_sqrt v = Val (sqrt v)"
  by (simp add: np_sqrt_def)

lemma gap_radicand_ge: "506 \<le> 506 + 0.1 * py_pow (T - 4.2) 2"
  by (simp add: py_pow_def)

lemma np_sqrt_gap:
  "np_sqrt (506 + 0.1 * py_pow (T - 4.2) 2) = Val (sqrt (506 + 0.1 * py_pow (T - 4.2) 2))"
proof -
  have "0 \<le> 506 + 0.1 * py_pow (T - 4.2) 2"
    using gap_radicand_ge [of T] by linarith
  then show ?thesis
    by (rule np_sqrt_nonneg)
qed


text \<open>
  C2. For every composition \<open>x\<close> and temperature \<open>T\<close>, \<^verbatim>\<open>Eg_func(x, T)\<close> returns
  \<open>(72 - 710x + 2440x\<^sup>2 - 4750x\<^sup>3 - 22.5 + sqrt(506 + 0.1(T - 4.2)\<^sup>2)) / 1000\<close>.
\<close>

theorem Eg_func_formula:
  "Eg_func x T =
     Val ((72 - 710 * x + 2440 * x\<^sup>2 - 4750 * x ^ 3 - 22.5 + sqrt (506 + 0.1 * (T - 4.2)\<^sup>2)) / 1000) \<and>
   Eg_func x T = Val (Eg_documented x T)"
  unfolding Eg_func_def np_sqrt_gap by (simp add: Eg_documented_def py_pow_def)



lemma sqrt_509364_bounds: "22.56909 < sqrt 509.364" "sqrt 509.364 < 22.5691"
  by (rule real_less_rsqrt, simp add: power2_eq_square)
     (rule real_less_lsqrt, simp_all add: power2_eq_square)

lemma Eg_func_at_01_10: "Eg_func 0.1 10 = Val ((sqrt 509.364 - 1.85) / 1000)"
  by (simp add: Eg_func_def np_sqrt_def py_pow_def power2_eq_square power3_eq_cube not_less)

text \<open>
  C7, as stated: \<^verbatim>\<open>Eg_func(0.1, 10)\<close> is approximately \<open>-0.0042\<close>. It is not: the value is
  within \<open>10\<^sup>-\<^sup>7\<close> of \<open>0.0207191\<close>, and so not within \<open>0.02\<close> of \<open>-0.0042\<close>.
\<close>

theorem Eg_func_at_01_10_not_minus_0042:
  "np_close (1 / 10 ^ 7) 0.0207191 (Eg_func 0.1 10) \<and>
   \<not> np_close 0.02 (- 0.0042) (Eg_func 0.1 10)"
proof -
  define r where "r = sqrt 509.364"
  have b: "22.56909 < r" "r < 22.5691"
    unfolding r_def by (rule sqrt_509364_bounds)+
  have e: "Eg_func 0.1 10 = Val ((r - 1.85) / 1000)"
    unfolding r_def by (rule Eg_func_at_01_10)
  show ?thesis
    unfolding e np_close.simps using b by (simp add: abs_le_iff not_le field_simps)
qed

text \<open>
  C7, amended. \<^verbatim>\<open>Eg_func(0.1, 10)\<close> equals the documented formula evaluated at \<open>x = 0.1\<close>,
  \<open>T = 10\<close>, which is \<open>(sqrt(509.364) - 1.85) / 1000\<close>, a value between \<open>0.020719\<close> and
  \<open>0.02072\<close>.
\<close>

theorem Eg_func_at_01_10_value:
  "Eg_func 0.1 10 = Val (Eg_documented 0.1 10) \<and>
   Eg_documented 0.1 10 = (sqrt 509.364 - 1.85) / 1000 \<and>
   0.020719 < Eg_documented 0.1 10 \<and> Eg_documented 0.1 10 < 0.02072"
proof -
  have v: "Eg_documented 0.1 10 = (sqrt 509.364 - 1.85) / 1000"
    by (simp add: Eg_documented_def power2_eq_square power3_eq_cube)
  define r where "r = sqrt 509.364"
  have b: "22.56909 < r" "r < 22.5691"
    unfolding r_def by (rule sqrt_509364_bounds)+
  have "0.020719 < (r - 1.85) / 1000" "(r - 1.85) / 1000 < 0.02072"
    using b by (simp_all add: field_simps)
  then show ?thesis
    unfolding v Eg_func_at_01_10 r_def by blast
qed

end
